theory Spec2Isabelle
  imports Main "HOL-Library.AList"
begin

section \<open>Values shared by the modules\<close>

text \<open>
  JSON values as the Python code handles them after \<^verbatim>\<open>json.loads\<close> or
  \<^verbatim>\<open>receive_json\<close>: \<^verbatim>\<open>None\<close>, booleans, integers, strings, lists and
  dicts.  A dict is an association list in insertion order with distinct keys, the
  order in which Python iterates it.
\<close>

datatype json =
    JNull
  | JBool bool
  | JNum int
  | JStr string
  | JArr "json list"
  | JObj "(string \<times> json) list"

type_synonym ('k, 'v) dict = "('k \<times> 'v) list"

text \<open>\<^verbatim>\<open>k in d\<close>, \<^verbatim>\<open>d[k] = v\<close> is \<open>AList.update k v d\<close> (an existing key
  keeps its position, a new key goes last), \<^verbatim>\<open>del d[k]\<close> is \<open>AList.delete k d\<close>,
  \<^verbatim>\<open>d.get(k)\<close> is \<open>map_of d k\<close>, \<^verbatim>\<open>d.values()\<close> is \<open>map snd d\<close>.\<close>

definition has_key :: "'k \<Rightarrow> ('k, 'v) dict \<Rightarrow> bool" where
  "has_key k d = (k \<in> set (map fst d))"

section \<open>connection.py: ConnectionManager and WebSocketService\<close>

text \<open>A WebSocket object is identified by a number.  The registry is
  \<^verbatim>\<open>active_connections: Dict[str, Dict[str, WebSocket]]\<close>.  Every
  \<^verbatim>\<open>send_json\<close> is recorded as a pair of the socket and the payload, in the
  order of the calls; \<^verbatim>\<open>websocket.accept()\<close> has no effect on the registry.\<close>

type_synonym websocket = nat
type_synonym registry = "(string, (string, websocket) dict) dict"
type_synonym delivery = "websocket \<times> json"

definition cm_connect :: "websocket \<Rightarrow> string \<Rightarrow> string \<Rightarrow> registry \<Rightarrow> registry" where
  "cm_connect ws session_id client_id ac =
     (let ac1 = (if \<not> has_key session_id ac then AList.update session_id [] ac else ac)
      in case map_of ac1 session_id of
           None \<Rightarrow> ac1
         | Some d \<Rightarrow> AList.update session_id (AList.update client_id ws d) ac1)"

definition cm_disconnect :: "string \<Rightarrow> string \<Rightarrow> registry \<Rightarrow> registry" where
  "cm_disconnect session_id client_id ac =
     (case map_of ac session_id of
        None \<Rightarrow> ac
      | Some d \<Rightarrow>
          (let d1 = (if has_key client_id d then AList.delete client_id d else d)
           in if d1 = [] then AList.delete session_id ac
              else AList.update session_id d1 ac))"




text \<open>The inbound wire envelope \<^verbatim>\<open>{type, content?, agent_id?, agent_name?}\<close>.
  A field that is present holds a JSON string, except \<^verbatim>\<open>agent_id\<close>, which is
  passed on as it came.\<close>

record envelope =
  env_type :: "string option"
  env_content :: "string option"
  env_agent_id :: "json option"
  env_agent_name :: "string option"


definition get_or :: "'a option \<Rightarrow> 'a \<Rightarrow> 'a" where
  "get_or v d = (case v of None \<Rightarrow> d | Some x \<Rightarrow> x)"



section \<open>server.py: WebSocketManager and the receive loop\<close>

definition broadcast_notification :: "string \<Rightarrow> json \<Rightarrow> registry \<Rightarrow> delivery list" where
  "broadcast_notification session_id notification ac =
     (case map_of ac session_id of
        None \<Rightarrow> []
      | Some d \<Rightarrow> map (\<lambda>ws. (ws, notification)) (map snd d))"

definition broadcast_agent_message :: "string \<Rightarrow> json \<Rightarrow> registry \<Rightarrow> delivery list" where
  "broadcast_agent_message session_id message ac =
     (case map_of ac session_id of
        None \<Rightarrow> []
      | Some d \<Rightarrow>
          map (\<lambda>ws. (ws, JObj [(''type'', JStr ''agent_message''), (''data'', message)]))
            (map snd d))"

definition send_direct_message :: "string \<Rightarrow> string \<Rightarrow> json \<Rightarrow> registry \<Rightarrow> delivery list" where
  "send_direct_message session_id client_id message ac =
     (case map_of ac session_id of
        None \<Rightarrow> []
      | Some d \<Rightarrow> (case map_of d client_id of None \<Rightarrow> [] | Some ws \<Rightarrow> [(ws, message)]))"

text \<open>\<^verbatim>\<open>WebSocketManager.connect\<close> stores the socket and then notifies every
  connection of the session, the new one included.\<close>

definition wsm_connect ::
  "websocket \<Rightarrow> string \<Rightarrow> string \<Rightarrow> registry \<Rightarrow> registry \<times> delivery list" where
  "wsm_connect ws session_id client_id ac =
     (let ac1 = (if \<not> has_key session_id ac then AList.update session_id [] ac else ac);
          ac2 = (case map_of ac1 session_id of
                   None \<Rightarrow> ac1
                 | Some d \<Rightarrow> AList.update session_id (AList.update client_id ws d) ac1)
      in (ac2, broadcast_notification session_id
                 (JObj [(''type'', JStr ''connection''),
                        (''client_id'', JStr client_id),
                        (''message'', JStr (''Client '' @ client_id @ '' connected''))]) ac2))"

definition wsm_disconnect :: "string \<Rightarrow> string \<Rightarrow> registry \<Rightarrow> registry" where
  "wsm_disconnect session_id client_id ac =
     (case map_of ac session_id of
        None \<Rightarrow> ac
      | Some d \<Rightarrow>
          (let d1 = (if has_key client_id d then AList.delete client_id d else d)
           in if d1 = [] then AList.delete session_id ac
              else AList.update session_id d1 ac))"


text \<open>The entries of the registry as (session id, client id, socket) triples, and the
  well-formedness of a Python dict of dicts: keys are distinct at both levels.\<close>

definition entries :: "registry \<Rightarrow> (string \<times> string \<times> websocket) list" where
  "entries ac = concat (map (\<lambda>(s, d). map (\<lambda>(c, ws). (s, c, ws)) d) ac)"

definition entries_for :: "string \<Rightarrow> string \<Rightarrow> registry \<Rightarrow> (string \<times> string \<times> websocket) list" where
  "entries_for session_id client_id ac =
     filter (\<lambda>(s, c, ws). s = session_id \<and> c = client_id) (entries ac)"

definition registry_ok :: "registry \<Rightarrow> bool" where
  "registry_ok ac = (distinct (map fst ac) \<and> list_all (\<lambda>(s, d). distinct (map fst d)) ac)"



section \<open>models.py: the store\<close>

text \<open>The tables the routes read and write, each a list of rows in insertion order;
  \<^verbatim>\<open>query(...).filter(...).first()\<close> is \<open>find\<close> on the table and
  \<^verbatim>\<open>.all()\<close> is \<open>filter\<close>.  Ids are Python integers; a new row takes the
  next free id.  Server-side timestamps are left out: no route below reads them back
  into a decision.\<close>

record session_row =
  s_id :: int
  s_name :: string
  s_description :: string
  s_owner_id :: int
  s_is_active :: bool

record agent =
  a_id :: int
  a_name :: string
  a_role :: string
  a_personality :: string
  a_system_instructions :: string
  a_examples :: json
  a_owner_id :: int

record session_agent =
  sa_id :: int
  sa_session_id :: int
  sa_agent_id :: int
  sa_is_manager :: bool

record message =
  m_id :: int
  m_content :: json
  m_session_id :: int
  m_session_agent_id :: "int option"
  m_user_id :: "int option"
  m_parent_id :: "int option"
  m_message_type :: "string option"

record conflict_resolution =
  cr_id :: int
  cr_session_id :: int
  cr_conflict_message_id :: int
  cr_resolution_method :: string
  cr_resolution_data :: json
  cr_resolved_by_agent_id :: "int option"
  cr_resolution_message_id :: "int option"

record db =
  sessions :: "session_row list"
  agents :: "agent list"
  session_agents :: "session_agent list"
  messages :: "message list"
  conflict_resolutions :: "conflict_resolution list"

definition next_id :: "int list \<Rightarrow> int" where
  "next_id ids = fold max ids 0 + 1"

text \<open>What a route hands back when it does not return its value: an
  \<^verbatim>\<open>HTTPException\<close> with status code and detail, or a Python exception that
  nothing catches (the server answers 500).  For a built-in exception only the class
  is kept; an exception of the Generation Oracle keeps its text.\<close>

datatype py_exn =
    ValueError
  | TypeError
  | AttributeError
  | KeyError
  | NameError
  | OracleError string

datatype error =
    HTTPException nat string
  | Unhandled py_exn

definition str_exn :: "py_exn \<Rightarrow> string" where
  "str_exn e =
     (case e of
        ValueError \<Rightarrow> ''ValueError''
      | TypeError \<Rightarrow> ''TypeError''
      | AttributeError \<Rightarrow> ''AttributeError''
      | KeyError \<Rightarrow> ''KeyError''
      | NameError \<Rightarrow> ''name 'func' is not defined''
      | OracleError s \<Rightarrow> s)"

section \<open>sandbox.py\<close>

definition add_agent_to_session ::
  "db \<Rightarrow> int \<Rightarrow> int \<Rightarrow> int \<Rightarrow> bool \<Rightarrow> db \<times> (error + json)" where
  "add_agent_to_session d current_user session_id agent_id is_manager =
     (case find (\<lambda>s. s_id s = session_id \<and> s_owner_id s = current_user) (sessions d) of
        None \<Rightarrow> (d, Inl (HTTPException 404 ''Session not found''))
      | Some session \<Rightarrow>
     (case find (\<lambda>a. a_id a = agent_id \<and> a_owner_id a = current_user) (agents d) of
        None \<Rightarrow> (d, Inl (HTTPException 404 ''Agent not found''))
      | Some agent \<Rightarrow>
     (case find (\<lambda>sa. sa_session_id sa = session_id \<and> sa_agent_id sa = agent_id)
             (session_agents d) of
        Some existing \<Rightarrow> (d, Inl (HTTPException 400 ''Agent already in session''))
      | None \<Rightarrow>
          (if is_manager \<and>
              find (\<lambda>sa. sa_session_id sa = session_id \<and> sa_is_manager sa)
                (session_agents d) \<noteq> None
           then (d, Inl (HTTPException 400 ''Session already has a manager agent''))
           else (d\<lparr>session_agents := session_agents d @
                     [\<lparr>sa_id = next_id (map sa_id (session_agents d)),
                       sa_session_id = session_id,
                       sa_agent_id = agent_id,
                       sa_is_manager = is_manager\<rparr>]\<rparr>,
                 Inr (JObj [(''status'', JStr ''success''),
                            (''message'', JStr ''Agent added to session'')]))))))"

text \<open>\<^verbatim>\<open>schemas.MessageCreate\<close>: the fields of \<^verbatim>\<open>MessageBase\<close>.\<close>

record message_create =
  mc_content :: string
  mc_session_id :: int
  mc_session_agent_id :: "int option"
  mc_user_id :: "int option"
  mc_parent_id :: "int option"

text \<open>\<^verbatim>\<open>send_message\<close> stores the message with the \<^verbatim>\<open>parent_id\<close> of the
  request body as it is; the manager lookup that follows changes nothing.\<close>

definition send_message :: "db \<Rightarrow> int \<Rightarrow> int \<Rightarrow> message_create \<Rightarrow> db \<times> (error + message)" where
  "send_message d current_user session_id body =
     (case find (\<lambda>s. s_id s = session_id \<and> s_owner_id s = current_user) (sessions d) of
        None \<Rightarrow> (d, Inl (HTTPException 404 ''Session not found''))
      | Some session \<Rightarrow>
          (let db_message =
                 \<lparr>m_id = next_id (map m_id (messages d)),
                  m_content = JStr (mc_content body),
                  m_session_id = session_id,
                  m_session_agent_id = None,
                  m_user_id = Some current_user,
                  m_parent_id = mc_parent_id body,
                  m_message_type = None\<rparr>
           in (d\<lparr>messages := messages d @ [db_message]\<rparr>, Inr db_message)))"

text \<open>The managers of a session, and the session of a stored message.\<close>

definition managers :: "db \<Rightarrow> int \<Rightarrow> session_agent list" where
  "managers d session_id =
     filter (\<lambda>sa. sa_session_id sa = session_id \<and> sa_is_manager sa) (session_agents d)"

definition session_of_message :: "db \<Rightarrow> int \<Rightarrow> int option" where
  "session_of_message d mid = map_option m_session_id (find (\<lambda>m. m_id m = mid) (messages d))"

section \<open>Python built-ins used by the services\<close>

text \<open>\<^verbatim>\<open>str(n)\<close> of an integer: its decimal numeral.\<close>

function str_nat :: "nat \<Rightarrow> string" where
  "str_nat n =
     (if n < 10 then [char_of (48 + n)]
      else str_nat (n div 10) @ [char_of (48 + n mod 10)])"
  by pat_completeness auto
termination
  by (relation "measure id") auto

declare str_nat.simps [simp del]

definition str_int :: "int \<Rightarrow> string" where
  "str_int i = (if i < 0 then CHR ''-'' # str_nat (nat (- i)) else str_nat (nat i))"


section \<open>gemini_service.py and manager_agent.py\<close>

text \<open>The Generation Oracle is \<^verbatim>\<open>GeminiService.generate_response\<close> (for
  \<^verbatim>\<open>ManagerAgent\<close>, the chain \<^verbatim>\<open>agent_executor.arun\<close>).  A call is
  described by the data its prompt text is rendered from; the oracle answers with a text
  or raises, and its answer may depend on how many calls were made before.  Every call
  is appended to a log, so the number of Oracle calls of an operation is the growth of
  the log.  \<^verbatim>\<open>json.loads\<close> is a parameter \<open>loads\<close>: \<open>None\<close> is
  \<^verbatim>\<open>JSONDecodeError\<close>.\<close>

datatype prompt =
    ManagerWorkflow json "agent list"
  | AgentPersona agent json
  | ResolveConflicts "(string, json) dict list"
  | ExecutorPrompt json "agent list"

type_synonym gen_oracle = "nat \<Rightarrow> prompt \<Rightarrow> py_exn + string"
type_synonym json_loads = "string \<Rightarrow> json option"

definition generate_response :: "gen_oracle \<Rightarrow> prompt list \<Rightarrow> prompt \<Rightarrow> (py_exn + string) \<times> prompt list" where
  "generate_response orc log p = (orc (length log) p, log @ [p])"

definition parse_failure_plan :: json where
  "parse_failure_plan =
     JObj [(''thought'', JStr ''Failed to parse response''), (''assigned_agents'', JArr [])]"

definition run_manager_workflow ::
  "gen_oracle \<Rightarrow> json_loads \<Rightarrow> prompt list \<Rightarrow> json \<Rightarrow> agent list \<Rightarrow> (py_exn + json) \<times> prompt list" where
  "run_manager_workflow orc loads log user_message available_agents =
     (case generate_response orc log (ManagerWorkflow user_message available_agents) of
        (Inl e, log1) \<Rightarrow> (Inl e, log1)
      | (Inr response, log1) \<Rightarrow>
          (case loads response of
             Some result \<Rightarrow> (Inr result, log1)
           | None \<Rightarrow> (Inr parse_failure_plan, log1)))"

text \<open>\<^verbatim>\<open>apply_agent_persona\<close> puts the agent's name and role in front of the
  oracle's text.\<close>

definition run_agent_workflow ::
  "gen_oracle \<Rightarrow> prompt list \<Rightarrow> agent \<Rightarrow> json \<Rightarrow> (py_exn + string) \<times> prompt list" where
  "run_agent_workflow orc log agent task =
     (case generate_response orc log (AgentPersona agent task) of
        (Inl e, log1) \<Rightarrow> (Inl e, log1)
      | (Inr response, log1) \<Rightarrow>
          (Inr (a_name agent @ '' ('' @ a_role agent @ ''): '' @ response), log1))"

definition resolve_conflicts ::
  "gen_oracle \<Rightarrow> json_loads \<Rightarrow> prompt list \<Rightarrow> (string, json) dict list \<Rightarrow> (py_exn + json) \<times> prompt list" where
  "resolve_conflicts orc loads log responses =
     (case responses of
        [] \<Rightarrow> (Inr (JObj [(''result'', JStr ''No responses to resolve'')]), log)
      | first # rest \<Rightarrow>
          (case generate_response orc log (ResolveConflicts responses) of
             (Inl e, log1) \<Rightarrow> (Inl e, log1)
           | (Inr response, log1) \<Rightarrow>
               (case loads response of
                  Some result \<Rightarrow> (Inr result, log1)
                | None \<Rightarrow>
                    (Inr (JObj [(''thought'', JStr ''Failed to parse response''),
                                (''result'', get_or (map_of first ''content'')
                                               (JStr ''No valid response''))]), log1))))"



section \<open>conflict_resolution.py\<close>






















section \<open>server.py: process_user_message\<close>

text \<open>\<^verbatim>\<open>int(session_id)\<close> on the path string is a parameter \<open>to_int\<close>
  (\<open>None\<close> is \<^verbatim>\<open>ValueError\<close>).  The whole body runs inside
  \<^verbatim>\<open>try ... except Exception\<close>: an exception ends the processing with an
  error envelope sent to the client of the request, and what was committed before
  stays.  The payload of an agent message carries no timestamp here.\<close>

definition error_envelope :: "string \<Rightarrow> json" where
  "error_envelope text = JObj [(''type'', JStr ''error''), (''message'', JStr text)]"

definition processing_error :: "registry \<Rightarrow> string \<Rightarrow> string \<Rightarrow> py_exn \<Rightarrow> delivery list" where
  "processing_error ac session_id client_id e =
     send_direct_message session_id client_id
       (error_envelope (''Error processing message: '' @ str_exn e)) ac"

definition agent_payload :: "message \<Rightarrow> agent \<Rightarrow> (string, json) dict" where
  "agent_payload msg agent =
     [(''id'', JNum (m_id msg)),
      (''content'', m_content msg),
      (''agent_name'', JStr (a_name agent)),
      (''agent_role'', JStr (a_role agent))]"

text \<open>\<^verbatim>\<open>str(a["id"]) == str(agent_id)\<close> for an integer id and a JSON value: the
  value is that integer or its decimal numeral as a string.  In both cases
  \<^verbatim>\<open>int(agent_id)\<close> is the id of the agent that matched.\<close>

definition same_str :: "int \<Rightarrow> json \<Rightarrow> bool" where
  "same_str i v = (case v of JNum j \<Rightarrow> i = j | JStr s \<Rightarrow> s = str_int i | _ \<Rightarrow> False)"

text \<open>What a \<^verbatim>\<open>for\<close> loop iterates over: the items of a list, the keys of a
  dict, the characters of a string; anything else raises \<^verbatim>\<open>TypeError\<close>.\<close>

definition iter_json :: "json \<Rightarrow> py_exn + json list" where
  "iter_json v =
     (case v of
        JArr xs \<Rightarrow> Inr xs
      | JObj kvs \<Rightarrow> Inr (map (\<lambda>kv. JStr (fst kv)) kvs)
      | JStr s \<Rightarrow> Inr (map (\<lambda>c. JStr [c]) s)
      | _ \<Rightarrow> Inl TypeError)"

text \<open>The rows the handler adds: the user's message, and a message authored by a session
  agent under a parent; and the personas of the roster that exist
  (\<^verbatim>\<open>available_agents\<close>).\<close>

definition user_message_row :: "db \<Rightarrow> int \<Rightarrow> int \<Rightarrow> json \<Rightarrow> message" where
  "user_message_row d sid owner content =
     \<lparr>m_id = next_id (map m_id (messages d)),
      m_content = content,
      m_session_id = sid,
      m_session_agent_id = None,
      m_user_id = Some owner,
      m_parent_id = None,
      m_message_type = None\<rparr>"

definition agent_message_row :: "db \<Rightarrow> int \<Rightarrow> int \<Rightarrow> int \<Rightarrow> json \<Rightarrow> message" where
  "agent_message_row d sid session_agent_id parent content =
     \<lparr>m_id = next_id (map m_id (messages d)),
      m_content = content,
      m_session_id = sid,
      m_session_agent_id = Some session_agent_id,
      m_user_id = None,
      m_parent_id = Some parent,
      m_message_type = None\<rparr>"

definition add_message :: "message \<Rightarrow> db \<Rightarrow> db" where
  "add_message m d = d\<lparr>messages := messages d @ [m]\<rparr>"

definition roster_agents :: "db \<Rightarrow> session_agent list \<Rightarrow> agent list" where
  "roster_agents d roster =
     concat (map (\<lambda>sa. case find (\<lambda>a. a_id a = sa_agent_id sa) (agents d) of
                          None \<Rightarrow> [] | Some a \<Rightarrow> [a]) roster)"

text \<open>The loop over the assignments of the plan: the store, the oracle log and the
  responses gathered so far, and the exception that ended the loop, if any.\<close>

fun run_assignments ::
  "gen_oracle \<Rightarrow> agent list \<Rightarrow> session_agent list \<Rightarrow> int \<Rightarrow> int \<Rightarrow> json list
     \<Rightarrow> db \<times> prompt list \<times> (string, json) dict list
     \<Rightarrow> (db \<times> prompt list \<times> (string, json) dict list) \<times> py_exn option" where
  "run_assignments orc available_agents roster sid parent [] st = (st, None)"
| "run_assignments orc available_agents roster sid parent (assignment # rest)
     (d, log, agent_responses) =
     (case assignment of
        JObj kvs \<Rightarrow>
          (let agent_id = get_or (map_of kvs ''agent_id'') JNull;
               task = get_or (map_of kvs ''task'') JNull
           in case find (\<lambda>a. same_str (a_id a) agent_id) available_agents of
                None \<Rightarrow>
                  run_assignments orc available_agents roster sid parent rest
                    (d, log, agent_responses)
              | Some agent_data \<Rightarrow>
                  (case run_agent_workflow orc log agent_data task of
                     (Inl e, log1) \<Rightarrow> ((d, log1, agent_responses), Some e)
                   | (Inr response, log1) \<Rightarrow>
                       (case find (\<lambda>sa. sa_agent_id sa = a_id agent_data) roster of
                          None \<Rightarrow>
                            run_assignments orc available_agents roster sid parent rest
                              (d, log1, agent_responses)
                        | Some session_agent \<Rightarrow>
                            (let agent_db_message =
                                   agent_message_row d sid (sa_id session_agent) parent
                                     (JStr response)
                             in run_assignments orc available_agents roster sid parent rest
                                  (add_message agent_db_message d, log1,
                                   agent_responses @ [agent_payload agent_db_message agent_data])))))
      | _ \<Rightarrow> ((d, log, agent_responses), Some AttributeError))"

definition process_user_message ::
  "gen_oracle \<Rightarrow> json_loads \<Rightarrow> (string \<Rightarrow> int option) \<Rightarrow> registry \<Rightarrow> db \<Rightarrow> prompt list
     \<Rightarrow> string \<Rightarrow> string \<Rightarrow> envelope \<Rightarrow> db \<times> prompt list \<times> delivery list" where
  "process_user_message orc loads to_int ac d log session_id client_id message =
     (let content = JStr (get_or (env_content message) [])
      in
      case to_int session_id of
        None \<Rightarrow> (d, log, processing_error ac session_id client_id ValueError)
      | Some sid \<Rightarrow>
     (case find (\<lambda>s. s_id s = sid) (sessions d) of
        None \<Rightarrow>
          (d, log, send_direct_message session_id client_id
                     (error_envelope (''Session '' @ session_id @ '' not found'')) ac)
      | Some db_session \<Rightarrow>
     (case filter (\<lambda>sa. sa_session_id sa = sid) (session_agents d) of
        [] \<Rightarrow>
          (d, log, send_direct_message session_id client_id
                     (error_envelope ''No agents in this session'') ac)
      | agent_to_use # others \<Rightarrow>
     (let roster = agent_to_use # others;
          db_message = user_message_row d sid (s_owner_id db_session) content;
          d1 = add_message db_message d
      in
      case find sa_is_manager roster of
        None \<Rightarrow>
          (case find (\<lambda>a. a_id a = sa_agent_id agent_to_use) (agents d) of
             None \<Rightarrow>
               (d, log, send_direct_message session_id client_id
                          (error_envelope ''Agent not found'') ac)
           | Some agent \<Rightarrow>
               (case run_agent_workflow orc log agent content of
                  (Inl e, log1) \<Rightarrow> (d, log1, processing_error ac session_id client_id e)
                | (Inr response, log1) \<Rightarrow>
                    (let agent_db_message =
                           agent_message_row d1 sid (sa_id agent_to_use) (m_id db_message)
                             (JStr response)
                     in (add_message agent_db_message d1, log1,
                         broadcast_agent_message session_id
                           (JObj (agent_payload agent_db_message agent)) ac))))
      | Some manager_agent \<Rightarrow>
          (let available_agents = roster_agents d roster
           in
           case find (\<lambda>a. a_id a = sa_agent_id manager_agent) (agents d) of
             None \<Rightarrow>
               (d, log, send_direct_message session_id client_id
                          (error_envelope ''Manager agent not found'') ac)
           | Some manager \<Rightarrow>
          (case run_manager_workflow orc loads log content available_agents of
             (Inl e, log1) \<Rightarrow> (d1, log1, processing_error ac session_id client_id e)
           | (Inr delegation_result, log1) \<Rightarrow>
          (case delegation_result of
             JObj plan \<Rightarrow>
               (case iter_json (get_or (map_of plan ''assigned_agents'') (JArr [])) of
                  Inl e \<Rightarrow> (d1, log1, processing_error ac session_id client_id e)
                | Inr assignments \<Rightarrow>
               (case run_assignments orc available_agents roster sid (m_id db_message)
                       assignments (d1, log1, []) of
                  ((d2, log2, agent_responses), Some e) \<Rightarrow>
                    (d2, log2, processing_error ac session_id client_id e)
                | ((d2, log2, agent_responses), None) \<Rightarrow>
                    (if length agent_responses > 1
                     then
                       (case resolve_conflicts orc loads log2 agent_responses of
                          (Inl e, log3) \<Rightarrow> (d2, log3, processing_error ac session_id client_id e)
                        | (Inr resolution_result, log3) \<Rightarrow>
                            (case resolution_result of
                               JObj res \<Rightarrow>
                                 (let resolution_db_message =
                                        agent_message_row d2 sid (sa_id manager_agent)
                                          (m_id db_message)
                                          (get_or (map_of res ''result'') (JStr ''No resolution''))
                                  in (add_message resolution_db_message d2, log3,
                                      broadcast_agent_message session_id
                                        (JObj (agent_payload resolution_db_message manager)) ac
                                      @ concat (map (\<lambda>response.
                                                       broadcast_agent_message session_id
                                                         (JObj response) ac) agent_responses)))
                             | _ \<Rightarrow> (d2, log3, processing_error ac session_id client_id AttributeError)))
                     else
                       (d2, log2,
                        concat (map (\<lambda>response.
                                       broadcast_agent_message session_id (JObj response) ac)
                                  agent_responses)))))
           | _ \<Rightarrow> (d1, log1, processing_error ac session_id client_id AttributeError))))))))"

text \<open>The messages an operation added that an agent of the session authored.\<close>

definition agent_messages :: "db \<Rightarrow> message list" where
  "agent_messages d = filter (\<lambda>m. m_session_agent_id m \<noteq> None) (messages d)"

section \<open>Example stores\<close>

text \<open>A store with two sessions of user 1, three agents, a message in each session and
  two session agents in session 1, none of them a manager; the same store with the
  first session agent as manager; and an oracle whose every answer is the same text.\<close>

definition demo_agent :: "int \<Rightarrow> string \<Rightarrow> agent" where
  "demo_agent i name =
     \<lparr>a_id = i, a_name = name, a_role = ''helper'', a_personality = ''calm'',
      a_system_instructions = ''Be brief'', a_examples = JArr [], a_owner_id = 1\<rparr>"

definition demo_message :: "int \<Rightarrow> int \<Rightarrow> message" where
  "demo_message i sid =
     \<lparr>m_id = i, m_content = JStr ''hello'', m_session_id = sid, m_session_agent_id = None,
      m_user_id = Some 1, m_parent_id = None, m_message_type = None\<rparr>"

definition demo_db :: db where
  "demo_db =
     \<lparr>sessions = [\<lparr>s_id = 1, s_name = ''one'', s_description = [], s_owner_id = 1, s_is_active = True\<rparr>,
                  \<lparr>s_id = 2, s_name = ''two'', s_description = [], s_owner_id = 1, s_is_active = True\<rparr>],
      agents = [demo_agent 1 ''Ann'', demo_agent 2 ''Bob'', demo_agent 3 ''Cy''],
      session_agents = [\<lparr>sa_id = 1, sa_session_id = 1, sa_agent_id = 1, sa_is_manager = False\<rparr>,
                        \<lparr>sa_id = 2, sa_session_id = 1, sa_agent_id = 2, sa_is_manager = False\<rparr>],
      messages = [demo_message 1 2, demo_message 2 1],
      conflict_resolutions = []\<rparr>"

definition demo_db_manager :: db where
  "demo_db_manager =
     demo_db\<lparr>session_agents :=
               [\<lparr>sa_id = 1, sa_session_id = 1, sa_agent_id = 1, sa_is_manager = True\<rparr>,
                \<lparr>sa_id = 2, sa_session_id = 1, sa_agent_id = 2, sa_is_manager = False\<rparr>]\<rparr>"

definition demo_oracle :: gen_oracle where
  "demo_oracle n p = Inr ''not json''"










section \<open>Auxiliary facts\<close>

lemma managers_find:
  "(find (\<lambda>sa. sa_session_id sa = sid \<and> sa_is_manager sa) (session_agents d) = None)
     = (managers d sid = [])"
  by (auto simp: managers_def find_None_iff filter_empty_conv)


section \<open>Properties of the registry\<close>

lemma has_key_map_of: "has_key k al \<longleftrightarrow> map_of al k \<noteq> None"
  by (simp add: has_key_def map_of_eq_None_iff)

lemma cm_connect_alt:
  "cm_connect ws s c ac = AList.update s (AList.update c ws (get_or (map_of ac s) [])) ac"
  by (auto simp: cm_connect_def Let_def get_or_def AList.update_conv' has_key_map_of split: option.splits)

lemma cm_connect_twice: "cm_connect ws2 s c (cm_connect ws1 s c ac) = cm_connect ws2 s c ac"
  by (simp add: cm_connect_alt AList.update_conv' get_or_def)

lemma wsm_connect_fst: "fst (wsm_connect ws s c ac) = cm_connect ws s c ac"
  by (simp add: wsm_connect_def cm_connect_def Let_def)

lemma filter_key_distinct:
  "distinct (map fst d) \<Longrightarrow>
   filter (\<lambda>p. fst p = k) d = (case map_of d k of None \<Rightarrow> [] | Some v \<Rightarrow> [(k, v)])"
proof (induction d)
  case Nil
  then show ?case by simp
next
  case (Cons p d)
  show ?case
  proof (cases "fst p = k")
    case True
    with Cons.prems have "k \<notin> fst ` set d" by auto
    then have "filter (\<lambda>p. fst p = k) d = []" by (auto simp: filter_empty_conv)
    with True show ?thesis by (cases p) simp
  next
    case False
    with Cons show ?thesis by (cases p) auto
  qed
qed

lemma entries_for_Cons:
  "entries_for s c ((s', d) # ac) =
     (if s' = s then map (\<lambda>(c', ws). (s, c', ws)) (filter (\<lambda>p. fst p = c) d) else [])
     @ entries_for s c ac"
  by (auto simp: entries_for_def entries_def filter_map comp_def case_prod_unfold filter_empty_conv)

lemma entries_for_none: "s \<notin> fst ` set ac \<Longrightarrow> entries_for s c ac = []"
  by (induction ac) (auto simp: entries_for_Cons, simp add: entries_for_def entries_def)

lemma entries_for_lookup:
  "registry_ok ac \<Longrightarrow>
   entries_for s c ac =
     (case map_of ac s of
        None \<Rightarrow> []
      | Some d \<Rightarrow> (case map_of d c of None \<Rightarrow> [] | Some ws \<Rightarrow> [(s, c, ws)]))"
proof (induction ac)
  case Nil
  then show ?case by (simp add: entries_for_def entries_def)
next
  case (Cons p ac)
  obtain s' d where p: "p = (s', d)" by (cases p)
  from Cons.prems have ok: "registry_ok ac" and dd: "distinct (map fst d)" and ns: "s' \<notin> fst ` set ac"
    by (auto simp: registry_ok_def p)
  show ?case
  proof (cases "s' = s")
    case True
    with ns have "entries_for s c ac = []" by (simp add: entries_for_none)
    with True dd show ?thesis
      by (simp add: p entries_for_Cons filter_key_distinct split: option.splits)
  next
    case False
    with Cons.IH [OF ok] show ?thesis by (simp add: p entries_for_Cons)
  qed
qed

lemma list_all_update:
  "list_all P al \<Longrightarrow> P (k, v) \<Longrightarrow> list_all P (AList.update k v al)"
  by (induction al) auto

lemma registry_ok_connect: "registry_ok ac \<Longrightarrow> registry_ok (cm_connect ws s c ac)"
proof -
  assume ok: "registry_ok ac"
  have "distinct (map fst (get_or (map_of ac s) []))"
  proof (cases "map_of ac s")
    case None
    then show ?thesis by (simp add: get_or_def)
  next
    case (Some d)
    then have "(s, d) \<in> set ac" by (rule map_of_SomeD)
    with ok show ?thesis by (auto simp: Some get_or_def registry_ok_def list_all_iff)
  qed
  then have "distinct (map fst (AList.update c ws (get_or (map_of ac s) [])))"
    by (simp add: AList.distinct_update)
  with ok show ?thesis
    by (simp add: cm_connect_alt registry_ok_def AList.distinct_update list_all_update)
qed

lemma entries_for_connect:
  "registry_ok ac \<Longrightarrow> entries_for s c (cm_connect ws s c ac) = [(s, c, ws)]"
  by (simp add: entries_for_lookup registry_ok_connect)
     (simp add: cm_connect_alt AList.update_conv')

text \<open>C9: registering the same (session id, client id) pair twice leaves the registry
  equal to the registry after one registration, for both connection managers, and a
  well-formed registry then holds exactly one entry for the pair.\<close>

theorem register_idempotent:
  "cm_connect ws s c (cm_connect ws s c ac) = cm_connect ws s c ac \<and>
   fst (wsm_connect ws s c (fst (wsm_connect ws s c ac))) = fst (wsm_connect ws s c ac) \<and>
   (registry_ok ac \<longrightarrow>
      entries_for s c (cm_connect ws s c (cm_connect ws s c ac)) = [(s, c, ws)] \<and>
      entries_for s c (fst (wsm_connect ws s c (fst (wsm_connect ws s c ac)))) = [(s, c, ws)])"
  by (simp add: cm_connect_twice wsm_connect_fst entries_for_connect)

theorem register_idempotent_witness:
  "registry_ok [(''s1'', [(''a'', 7)])] \<and>
   cm_connect 9 ''s1'' ''b'' (cm_connect 9 ''s1'' ''b'' [(''s1'', [(''a'', 7)])])
     = cm_connect 9 ''s1'' ''b'' [(''s1'', [(''a'', 7)])] \<and>
   entries_for ''s1'' ''b'' (cm_connect 9 ''s1'' ''b'' (cm_connect 9 ''s1'' ''b'' [(''s1'', [(''a'', 7)])]))
     = [(''s1'', ''b'', 9)]"
proof -
  have ok: "registry_ok [(''s1'', [(''a'', 7)])]" by (simp add: registry_ok_def)
  from register_idempotent [of 9 "''s1''" "''b''" "[(''s1'', [(''a'', 7)])]"] ok
  show ?thesis by blast
qed


section \<open>Properties of the wire handling\<close>




section \<open>Properties of sandbox.py\<close>

text \<open>C5 (as the code has it): \<^verbatim>\<open>send_message\<close> never looks at the session of the
  parent.  For an existing session of the caller it stores exactly one new message in
  that session, with the \<^verbatim>\<open>parent_id\<close> of the request, and returns it, whatever
  session the parent belongs to.\<close>

theorem send_message_keeps_parent:
  assumes "find (\<lambda>s. s_id s = session_id \<and> s_owner_id s = current_user) (sessions d) \<noteq> None"
  shows "\<exists>m. send_message d current_user session_id body
               = (d\<lparr>messages := messages d @ [m]\<rparr>, Inr m) \<and>
             m_parent_id m = mc_parent_id body \<and> m_session_id m = session_id"
  using assms by (auto simp: send_message_def Let_def split: option.splits)

theorem send_message_keeps_parent_witness:
  "session_of_message demo_db 1 = Some 2 \<and>
   (\<exists>m. send_message demo_db 1 1
           \<lparr>mc_content = ''reply'', mc_session_id = 1, mc_session_agent_id = None,
            mc_user_id = None, mc_parent_id = Some 1\<rparr>
         = (demo_db\<lparr>messages := messages demo_db @ [m]\<rparr>, Inr m) \<and>
        m_parent_id m = Some 1 \<and> m_session_id m = 1)"
proof -
  have s: "find (\<lambda>s. s_id s = 1 \<and> s_owner_id s = 1) (sessions demo_db) \<noteq> None"
    by (simp add: demo_db_def)
  have p: "session_of_message demo_db 1 = Some 2"
    by (simp add: session_of_message_def demo_db_def demo_message_def)
  from send_message_keeps_parent [OF s, of
      "\<lparr>mc_content = ''reply'', mc_session_id = 1, mc_session_agent_id = None,
        mc_user_id = None, mc_parent_id = Some 1\<rparr>"] p
  show ?thesis by simp
qed

text \<open>C5 as stated fails: message 1 belongs to session 2, and a message sent to
  session 1 with parent 1 is stored and returned, not rejected.\<close>

theorem cross_session_parent_counterexample:
  "session_of_message demo_db 1 = Some 2 \<and>
   snd (send_message demo_db 1 1
          \<lparr>mc_content = ''reply'', mc_session_id = 1, mc_session_agent_id = None,
           mc_user_id = None, mc_parent_id = Some 1\<rparr>)
     = Inr \<lparr>m_id = 3, m_content = JStr ''reply'', m_session_id = 1,
            m_session_agent_id = None, m_user_id = Some 1, m_parent_id = Some 1,
            m_message_type = None\<rparr>"
  by (simp add: session_of_message_def send_message_def demo_db_def demo_message_def
        next_id_def Let_def)

lemma add_agent_rejects:
  "is_manager \<Longrightarrow> managers d session_id \<noteq> [] \<Longrightarrow>
   fst (add_agent_to_session d u session_id agent_id is_manager) = d \<and>
   (\<exists>e. snd (add_agent_to_session d u session_id agent_id is_manager) = Inl e)"
  by (simp add: add_agent_to_session_def managers_find split: option.splits)

lemma add_agent_duplicate_manager:
  "is_manager \<Longrightarrow> managers d session_id \<noteq> [] \<Longrightarrow>
   find (\<lambda>s. s_id s = session_id \<and> s_owner_id s = u) (sessions d) \<noteq> None \<Longrightarrow>
   find (\<lambda>a. a_id a = agent_id \<and> a_owner_id a = u) (agents d) \<noteq> None \<Longrightarrow>
   find (\<lambda>sa. sa_session_id sa = session_id \<and> sa_agent_id sa = agent_id) (session_agents d) = None \<Longrightarrow>
   snd (add_agent_to_session d u session_id agent_id is_manager)
     = Inl (HTTPException 400 ''Session already has a manager agent'')"
  by (simp add: add_agent_to_session_def managers_find split: option.splits)

lemma add_agent_cases:
  "fst (add_agent_to_session d u session_id agent_id is_manager) = d \<or>
   (\<not> (is_manager \<and> managers d session_id \<noteq> []) \<and>
    fst (add_agent_to_session d u session_id agent_id is_manager)
      = d\<lparr>session_agents := session_agents d @
             [\<lparr>sa_id = next_id (map sa_id (session_agents d)),
               sa_session_id = session_id,
               sa_agent_id = agent_id,
               sa_is_manager = is_manager\<rparr>]\<rparr>)"
  by (simp add: add_agent_to_session_def managers_find split: option.splits)

lemma managers_add:
  assumes "length (managers d sid) \<le> 1"
  shows "length (managers (fst (add_agent_to_session d u session_id agent_id is_manager)) sid) \<le> 1"
proof -
  from add_agent_cases [of d u session_id agent_id is_manager]
  consider (same) "fst (add_agent_to_session d u session_id agent_id is_manager) = d"
    | (added) "\<not> (is_manager \<and> managers d session_id \<noteq> [])"
        "fst (add_agent_to_session d u session_id agent_id is_manager)
           = d\<lparr>session_agents := session_agents d @
                  [\<lparr>sa_id = next_id (map sa_id (session_agents d)),
                    sa_session_id = session_id,
                    sa_agent_id = agent_id,
                    sa_is_manager = is_manager\<rparr>]\<rparr>"
    by blast
  then show ?thesis
  proof cases
    case same
    with assms show ?thesis by simp
  next
    case added
    show ?thesis
    proof (cases "is_manager \<and> sid = session_id")
      case True
      with added(1) have "managers d sid = []" by simp
      then show ?thesis by (simp add: added(2) managers_def)
    next
      case False
      then have "managers (fst (add_agent_to_session d u session_id agent_id is_manager)) sid
                   = managers d sid"
        by (auto simp: added(2) managers_def)
      with assms show ?thesis by simp
    qed
  qed
qed

text \<open>C6: adding an agent as manager to a session that has a manager is rejected and
  leaves the store unchanged; when the session and the agent exist and the agent is not
  yet a member, the rejection is the 400 error "Session already has a manager agent".
  Every call of \<^verbatim>\<open>add_agent_to_session\<close> keeps "at most one manager" for every
  session.\<close>

theorem add_agent_single_manager:
  "(is_manager \<and> managers d session_id \<noteq> [] \<longrightarrow>
      fst (add_agent_to_session d u session_id agent_id is_manager) = d \<and>
      (\<exists>e. snd (add_agent_to_session d u session_id agent_id is_manager) = Inl e) \<and>
      (find (\<lambda>s. s_id s = session_id \<and> s_owner_id s = u) (sessions d) \<noteq> None \<and>
       find (\<lambda>a. a_id a = agent_id \<and> a_owner_id a = u) (agents d) \<noteq> None \<and>
       find (\<lambda>sa. sa_session_id sa = session_id \<and> sa_agent_id sa = agent_id)
         (session_agents d) = None \<longrightarrow>
       snd (add_agent_to_session d u session_id agent_id is_manager)
         = Inl (HTTPException 400 ''Session already has a manager agent''))) \<and>
   (length (managers d sid) \<le> 1 \<longrightarrow>
      length (managers (fst (add_agent_to_session d u session_id agent_id is_manager)) sid) \<le> 1)"
proof (intro conjI impI)
  assume h: "is_manager \<and> managers d session_id \<noteq> []"
  then show "fst (add_agent_to_session d u session_id agent_id is_manager) = d"
    and "\<exists>e. snd (add_agent_to_session d u session_id agent_id is_manager) = Inl e"
    using add_agent_rejects [of is_manager d session_id u agent_id] by simp_all
  assume "find (\<lambda>s. s_id s = session_id \<and> s_owner_id s = u) (sessions d) \<noteq> None \<and>
       find (\<lambda>a. a_id a = agent_id \<and> a_owner_id a = u) (agents d) \<noteq> None \<and>
       find (\<lambda>sa. sa_session_id sa = session_id \<and> sa_agent_id sa = agent_id)
         (session_agents d) = None"
  with h show "snd (add_agent_to_session d u session_id agent_id is_manager)
         = Inl (HTTPException 400 ''Session already has a manager agent'')"
    by (simp add: add_agent_duplicate_manager)
next
  assume "length (managers d sid) \<le> 1"
  then show "length (managers (fst (add_agent_to_session d u session_id agent_id is_manager)) sid) \<le> 1"
    by (rule managers_add)
qed

theorem add_agent_single_manager_witness:
  "managers demo_db_manager 1 \<noteq> [] \<and> length (managers demo_db_manager 1) \<le> 1 \<and>
   add_agent_to_session demo_db_manager 1 1 3 True
     = (demo_db_manager, Inl (HTTPException 400 ''Session already has a manager agent'')) \<and>
   length (managers (fst (add_agent_to_session demo_db_manager 1 1 3 True)) 1) \<le> 1"
proof -
  have m: "managers demo_db_manager 1 \<noteq> []" and l: "length (managers demo_db_manager 1) \<le> 1"
    by (simp_all add: managers_def demo_db_manager_def demo_db_def)
  have s: "find (\<lambda>s. s_id s = 1 \<and> s_owner_id s = 1) (sessions demo_db_manager) \<noteq> None"
    and a: "find (\<lambda>a. a_id a = 3 \<and> a_owner_id a = 1) (agents demo_db_manager) \<noteq> None"
    and n: "find (\<lambda>sa. sa_session_id sa = 1 \<and> sa_agent_id sa = 3)
              (session_agents demo_db_manager) = None"
    by (simp_all add: demo_db_manager_def demo_db_def demo_agent_def)
  from add_agent_single_manager [of True demo_db_manager 1 1 3 1] m l s a n
  show ?thesis by (simp add: prod_eq_iff)
qed

section \<open>Properties of the services\<close>






section \<open>Properties of conflict_resolution.py\<close>





section \<open>Properties of process_user_message\<close>

text \<open>C4 (as the code has it): single-agent mode is the branch for a session without
  a manager.  There the raw user text is executed against the persona of the first
  roster entry with one oracle call, and exactly one agent message is stored and
  broadcast.  When the session has a manager and the plan has no assignments (also after
  a parse failure), the only oracle call is the delegation, no persona is executed, no
  agent message is stored and nothing is delivered.\<close>

theorem empty_plan_produces_no_response:
  assumes "to_int session_id = Some sid"
    and "find (\<lambda>s. s_id s = sid) (sessions d) = Some db_session"
    and "filter (\<lambda>sa. sa_session_id sa = sid) (session_agents d) = agent_to_use # others"
  shows "(find sa_is_manager (agent_to_use # others) = None \<and>
          find (\<lambda>a. a_id a = sa_agent_id agent_to_use) (agents d) = Some agent \<and>
          orc (length log) (AgentPersona agent (JStr (get_or (env_content message) [])))
            = Inr response \<longrightarrow>
            process_user_message orc loads to_int ac d log session_id client_id message =
              (let db_message = user_message_row d sid (s_owner_id db_session)
                                  (JStr (get_or (env_content message) []));
                   d1 = add_message db_message d;
                   reply = agent_message_row d1 sid (sa_id agent_to_use) (m_id db_message)
                             (JStr (a_name agent @ '' ('' @ a_role agent @ ''): '' @ response))
               in (add_message reply d1,
                   log @ [AgentPersona agent (JStr (get_or (env_content message) []))],
                   broadcast_agent_message session_id (JObj (agent_payload reply agent)) ac))) \<and>
         (find sa_is_manager (agent_to_use # others) = Some manager_agent \<and>
          find (\<lambda>a. a_id a = sa_agent_id manager_agent) (agents d) \<noteq> None \<and>
          orc (length log) (ManagerWorkflow (JStr (get_or (env_content message) []))
                              (roster_agents d (agent_to_use # others))) = Inr response \<and>
          (loads response = None \<or>
           (\<exists>plan. loads response = Some (JObj plan) \<and>
                   iter_json (get_or (map_of plan ''assigned_agents'') (JArr [])) = Inr [])) \<longrightarrow>
            process_user_message orc loads to_int ac d log session_id client_id message =
              (add_message (user_message_row d sid (s_owner_id db_session)
                              (JStr (get_or (env_content message) []))) d,
               log @ [ManagerWorkflow (JStr (get_or (env_content message) []))
                        (roster_agents d (agent_to_use # others))],
               []))"
proof (intro conjI impI)
  assume "find sa_is_manager (agent_to_use # others) = None \<and>
          find (\<lambda>a. a_id a = sa_agent_id agent_to_use) (agents d) = Some agent \<and>
          orc (length log) (AgentPersona agent (JStr (get_or (env_content message) [])))
            = Inr response"
  with assms show "process_user_message orc loads to_int ac d log session_id client_id message =
              (let db_message = user_message_row d sid (s_owner_id db_session)
                                  (JStr (get_or (env_content message) []));
                   d1 = add_message db_message d;
                   reply = agent_message_row d1 sid (sa_id agent_to_use) (m_id db_message)
                             (JStr (a_name agent @ '' ('' @ a_role agent @ ''): '' @ response))
               in (add_message reply d1,
                   log @ [AgentPersona agent (JStr (get_or (env_content message) []))],
                   broadcast_agent_message session_id (JObj (agent_payload reply agent)) ac))"
    by (simp add: process_user_message_def run_agent_workflow_def generate_response_def Let_def)
next
  assume h: "find sa_is_manager (agent_to_use # others) = Some manager_agent \<and>
          find (\<lambda>a. a_id a = sa_agent_id manager_agent) (agents d) \<noteq> None \<and>
          orc (length log) (ManagerWorkflow (JStr (get_or (env_content message) []))
                              (roster_agents d (agent_to_use # others))) = Inr response \<and>
          (loads response = None \<or>
           (\<exists>plan. loads response = Some (JObj plan) \<and>
                   iter_json (get_or (map_of plan ''assigned_agents'') (JArr [])) = Inr []))"
  then obtain manager where m: "find (\<lambda>a. a_id a = sa_agent_id manager_agent) (agents d) = Some manager"
    by auto
  from h have "run_manager_workflow orc loads log (JStr (get_or (env_content message) []))
                 (roster_agents d (agent_to_use # others))
               = (Inr parse_failure_plan,
                  log @ [ManagerWorkflow (JStr (get_or (env_content message) []))
                           (roster_agents d (agent_to_use # others))]) \<or>
             (\<exists>plan. run_manager_workflow orc loads log (JStr (get_or (env_content message) []))
                 (roster_agents d (agent_to_use # others))
               = (Inr (JObj plan),
                  log @ [ManagerWorkflow (JStr (get_or (env_content message) []))
                           (roster_agents d (agent_to_use # others))]) \<and>
                iter_json (get_or (map_of plan ''assigned_agents'') (JArr [])) = Inr [])"
    by (auto simp: run_manager_workflow_def generate_response_def)
  then show "process_user_message orc loads to_int ac d log session_id client_id message =
              (add_message (user_message_row d sid (s_owner_id db_session)
                              (JStr (get_or (env_content message) []))) d,
               log @ [ManagerWorkflow (JStr (get_or (env_content message) []))
                        (roster_agents d (agent_to_use # others))],
               [])"
  proof (elim disjE exE conjE)
    assume "run_manager_workflow orc loads log (JStr (get_or (env_content message) []))
                 (roster_agents d (agent_to_use # others))
               = (Inr parse_failure_plan,
                  log @ [ManagerWorkflow (JStr (get_or (env_content message) []))
                           (roster_agents d (agent_to_use # others))])"
    with assms h m show ?thesis
      by (simp add: process_user_message_def Let_def parse_failure_plan_def iter_json_def get_or_def)
  next
    fix plan
    assume "run_manager_workflow orc loads log (JStr (get_or (env_content message) []))
                 (roster_agents d (agent_to_use # others))
               = (Inr (JObj plan),
                  log @ [ManagerWorkflow (JStr (get_or (env_content message) []))
                           (roster_agents d (agent_to_use # others))])"
      and "iter_json (get_or (map_of plan ''assigned_agents'') (JArr [])) = Inr []"
    with assms h m show ?thesis
      by (simp add: process_user_message_def Let_def)
  qed
qed

theorem empty_plan_produces_no_response_witness:
  "process_user_message demo_oracle (\<lambda>s. None) (\<lambda>s. Some 1) [(''1'', [(''c'', 5)])]
     demo_db [] ''1'' ''c''
     \<lparr>env_type = Some ''user_message'', env_content = Some ''hi'', env_agent_id = None,
      env_agent_name = None\<rparr>
   = (add_message
        (agent_message_row (add_message (user_message_row demo_db 1 1 (JStr ''hi'')) demo_db)
           1 1 3 (JStr ''Ann (helper): not json''))
        (add_message (user_message_row demo_db 1 1 (JStr ''hi'')) demo_db),
      [AgentPersona (demo_agent 1 ''Ann'') (JStr ''hi'')],
      [(5, JObj [(''type'', JStr ''agent_message''),
                 (''data'', JObj [(''id'', JNum 4),
                                  (''content'', JStr ''Ann (helper): not json''),
                                  (''agent_name'', JStr ''Ann''),
                                  (''agent_role'', JStr ''helper'')])])]) \<and>
   process_user_message demo_oracle (\<lambda>s. None) (\<lambda>s. Some 1) [(''1'', [(''c'', 5)])]
     demo_db_manager [] ''1'' ''c''
     \<lparr>env_type = Some ''user_message'', env_content = Some ''hi'', env_agent_id = None,
      env_agent_name = None\<rparr>
   = (add_message (user_message_row demo_db_manager 1 1 (JStr ''hi'')) demo_db_manager,
      [ManagerWorkflow (JStr ''hi'') [demo_agent 1 ''Ann'', demo_agent 2 ''Bob'']],
      [])"
proof -
  let ?msg = "\<lparr>env_type = Some ''user_message'', env_content = Some ''hi'', env_agent_id = None,
      env_agent_name = None\<rparr>"
  let ?s = "\<lparr>s_id = 1, s_name = ''one'', s_description = [], s_owner_id = 1, s_is_active = True\<rparr>"
  let ?sa1 = "\<lparr>sa_id = 1, sa_session_id = 1, sa_agent_id = 1, sa_is_manager = False\<rparr>"
  let ?sa2 = "\<lparr>sa_id = 2, sa_session_id = 1, sa_agent_id = 2, sa_is_manager = False\<rparr>"
  let ?ma1 = "\<lparr>sa_id = 1, sa_session_id = 1, sa_agent_id = 1, sa_is_manager = True\<rparr>"
  let ?ac = "[(''1'', [(''c'', 5::nat)])]"
  let ?d1 = "add_message (user_message_row demo_db 1 1 (JStr ''hi'')) demo_db"
  have a1: "(\<lambda>s::string. Some (1::int)) ''1'' = Some 1" by simp
  have a2: "find (\<lambda>s. s_id s = 1) (sessions demo_db) = Some ?s"
    by (simp add: demo_db_def)
  have a3: "filter (\<lambda>sa. sa_session_id sa = 1) (session_agents demo_db) = ?sa1 # [?sa2]"
    by (simp add: demo_db_def)
  have a4: "find sa_is_manager (?sa1 # [?sa2]) = None" by simp
  have a5: "find (\<lambda>a. a_id a = sa_agent_id ?sa1) (agents demo_db) = Some (demo_agent 1 ''Ann'')"
    by (simp add: demo_db_def demo_agent_def)
  have a6: "demo_oracle (length ([] :: prompt list))
              (AgentPersona (demo_agent 1 ''Ann'') (JStr (get_or (env_content ?msg) [])))
            = Inr ''not json''"
    by (simp add: demo_oracle_def)
  have b2: "find (\<lambda>s. s_id s = 1) (sessions demo_db_manager) = Some ?s"
    by (simp add: demo_db_manager_def demo_db_def)
  have b3: "filter (\<lambda>sa. sa_session_id sa = 1) (session_agents demo_db_manager) = ?ma1 # [?sa2]"
    by (simp add: demo_db_manager_def demo_db_def)
  have b4: "find sa_is_manager (?ma1 # [?sa2]) = Some ?ma1" by simp
  have b5: "find (\<lambda>a. a_id a = sa_agent_id ?ma1) (agents demo_db_manager) \<noteq> None"
    by (simp add: demo_db_manager_def demo_db_def demo_agent_def)
  have b6: "demo_oracle (length ([] :: prompt list))
              (ManagerWorkflow (JStr (get_or (env_content ?msg) []))
                 (roster_agents demo_db_manager (?ma1 # [?sa2]))) = Inr ''not json''"
    by (simp add: demo_oracle_def)
  have b7: "(\<lambda>s::string. None :: json option) ''not json'' = None" by simp
  have ra: "roster_agents demo_db_manager (?ma1 # [?sa2]) = [demo_agent 1 ''Ann'', demo_agent 2 ''Bob'']"
    by (simp add: roster_agents_def demo_db_manager_def demo_db_def demo_agent_def)
  have m3: "m_id (user_message_row demo_db 1 1 (JStr ''hi'')) = 3"
    by (simp add: user_message_row_def demo_db_def demo_message_def next_id_def)
  have an: "a_name (demo_agent 1 ''Ann'') = ''Ann''" "a_role (demo_agent 1 ''Ann'') = ''helper''"
    by (simp_all add: demo_agent_def)
  have bc: "broadcast_agent_message ''1''
              (JObj (agent_payload (agent_message_row ?d1 1 1 3 (JStr ''Ann (helper): not json''))
                       (demo_agent 1 ''Ann''))) ?ac
            = [(5, JObj [(''type'', JStr ''agent_message''),
                 (''data'', JObj [(''id'', JNum 4),
                                  (''content'', JStr ''Ann (helper): not json''),
                                  (''agent_name'', JStr ''Ann''),
                                  (''agent_role'', JStr ''helper'')])])]"
    by (simp add: broadcast_agent_message_def agent_payload_def agent_message_row_def
          add_message_def user_message_row_def demo_db_def demo_message_def demo_agent_def
          next_id_def)
  note T = empty_plan_produces_no_response [where orc = demo_oracle and log = "[]"
         and message = ?msg and response = "''not json''" and loads = "\<lambda>s. None"
         and ac = ?ac and client_id = "''c''" and session_id = "''1''"
         and to_int = "\<lambda>s. Some 1" and sid = 1]
  from T [where agent = "demo_agent 1 ''Ann''", OF a1 a2 a3] a4 a5 a6
  have "process_user_message demo_oracle (\<lambda>s. None) (\<lambda>s. Some 1) ?ac demo_db [] ''1'' ''c'' ?msg
        = (let db_message = user_message_row demo_db 1 (s_owner_id ?s)
                              (JStr (get_or (env_content ?msg) []));
               d1 = add_message db_message demo_db;
               reply = agent_message_row d1 1 (sa_id ?sa1) (m_id db_message)
                         (JStr (a_name (demo_agent 1 ''Ann'') @ '' ('' @
                                a_role (demo_agent 1 ''Ann'') @ ''): '' @ ''not json''))
           in (add_message reply d1,
               [] @ [AgentPersona (demo_agent 1 ''Ann'') (JStr (get_or (env_content ?msg) []))],
               broadcast_agent_message ''1'' (JObj (agent_payload reply (demo_agent 1 ''Ann'')))
                 ?ac))"
    by blast
  with m3 an bc
  have A: "process_user_message demo_oracle (\<lambda>s. None) (\<lambda>s. Some 1) ?ac demo_db [] ''1'' ''c'' ?msg
   = (add_message (agent_message_row ?d1 1 1 3 (JStr ''Ann (helper): not json'')) ?d1,
      [AgentPersona (demo_agent 1 ''Ann'') (JStr ''hi'')],
      [(5, JObj [(''type'', JStr ''agent_message''),
                 (''data'', JObj [(''id'', JNum 4),
                                  (''content'', JStr ''Ann (helper): not json''),
                                  (''agent_name'', JStr ''Ann''),
                                  (''agent_role'', JStr ''helper'')])])])"
    by (simp add: Let_def get_or_def)
  from T [where manager_agent = ?ma1, OF a1 b2 b3] b4 b5 b6 b7
  have "process_user_message demo_oracle (\<lambda>s. None) (\<lambda>s. Some 1) ?ac demo_db_manager []
          ''1'' ''c'' ?msg
        = (add_message (user_message_row demo_db_manager 1 (s_owner_id ?s)
                          (JStr (get_or (env_content ?msg) []))) demo_db_manager,
           [] @ [ManagerWorkflow (JStr (get_or (env_content ?msg) []))
                   (roster_agents demo_db_manager (?ma1 # [?sa2]))],
           [])"
    by blast
  with ra
  have B: "process_user_message demo_oracle (\<lambda>s. None) (\<lambda>s. Some 1) ?ac demo_db_manager []
             ''1'' ''c'' ?msg
   = (add_message (user_message_row demo_db_manager 1 1 (JStr ''hi'')) demo_db_manager,
      [ManagerWorkflow (JStr ''hi'') [demo_agent 1 ''Ann'', demo_agent 2 ''Bob'']],
      [])"
    by (simp add: get_or_def)
  from A B show ?thesis by simp
qed

text \<open>C4 as stated fails: in a session with a manager, an oracle answer that does not
  parse gives the empty plan, and then no persona is executed: the delegation is the
  only oracle call, no agent message is stored and nothing is delivered.\<close>

theorem empty_plan_single_agent_counterexample:
  "fst (run_manager_workflow demo_oracle (\<lambda>s. None) [] (JStr ''hi'')
          [demo_agent 1 ''Ann'', demo_agent 2 ''Bob'']) = Inr parse_failure_plan \<and>
   agent_messages
     (fst (process_user_message demo_oracle (\<lambda>s. None) (\<lambda>s. Some 1) [(''1'', [(''c'', 5)])]
             demo_db_manager [] ''1'' ''c''
             \<lparr>env_type = Some ''user_message'', env_content = Some ''hi'', env_agent_id = None,
              env_agent_name = None\<rparr>)) = [] \<and>
   snd (process_user_message demo_oracle (\<lambda>s. None) (\<lambda>s. Some 1) [(''1'', [(''c'', 5)])]
          demo_db_manager [] ''1'' ''c''
          \<lparr>env_type = Some ''user_message'', env_content = Some ''hi'', env_agent_id = None,
           env_agent_name = None\<rparr>)
     = ([ManagerWorkflow (JStr ''hi'') [demo_agent 1 ''Ann'', demo_agent 2 ''Bob'']], [])"
  by (simp add: process_user_message_def run_manager_workflow_def generate_response_def
        parse_failure_plan_def iter_json_def get_or_def roster_agents_def add_message_def
        user_message_row_def agent_messages_def demo_db_manager_def demo_db_def demo_agent_def
        demo_message_def demo_oracle_def next_id_def Let_def)


section \<open>Properties of submit_vote\<close>


















end
